theory Spec2Isabelle
  imports Complex_Main "HOL-Library.Sublist" "HOL-Library.Multiset"
begin

section \<open>The movies table\<close>

text \<open>
  \<^verbatim>\<open>Backend_Project.py\<close> keeps every record in one SQLite table, created by
  \<^verbatim>\<open>initialize_database\<close>:
  \<^verbatim>\<open>
    CREATE TABLE IF NOT EXISTS movies (
        id INTEGER PRIMARY KEY AUTOINCREMENT,
        movie_id TEXT NOT NULL UNIQUE, movie_name TEXT NOT NULL,
        release_date TEXT, director TEXT, cast TEXT, budget TEXT,
        duration TEXT, rating TEXT)
  \<close>
  A row is the tuple that \<^verbatim>\<open>SELECT *\<close> returns, in column order. The methods pass
  \<^verbatim>\<open>str\<close> values for the eight text columns, so these are strings here; a character
  of the model stands for one character of the stored text, and the strings are text
  that can be stored (encodable as UTF-8). Row ids are integers. The
  64-bit range of the \<^verbatim>\<open>AUTOINCREMENT\<close> counter is not modelled: the counter would
  need \<open>2^63\<close> inserts to leave it. An id that a caller passes (\<^verbatim>\<open>record_id: int\<close>)
  is any Python integer, and the range matters when it is bound to a statement.
\<close>

record movie =
  id_col :: int
  movie_id :: string
  movie_name :: string
  release_date :: string
  director :: string
  cast :: string
  budget :: string
  duration :: string
  rating :: string

text \<open>
  The table holds its rows in rowid order together with the \<^verbatim>\<open>AUTOINCREMENT\<close>
  counter that SQLite keeps in \<^verbatim>\<open>sqlite_sequence\<close> (the largest rowid ever
  handed out). The database file either has the table or does not have it yet:
  every method opens its own connection with \<^verbatim>\<open>sqlite3.connect\<close>, which also
  succeeds on a file without the schema.
\<close>

record table =
  rows :: "movie list"
  seq :: int

type_synonym database = "table option"

text \<open>
  The exceptions of the \<^verbatim>\<open>sqlite3\<close> module that the statements of this program can
  raise, with the text that \<^verbatim>\<open>str(e)\<close> gives. Both are subclasses of
  \<^verbatim>\<open>sqlite3.Error\<close>. Faults of the environment (a full disk, a locked or corrupt
  file) are not modelled.
\<close>

datatype sqlite_error = IntegrityError string | OperationalError string

fun str :: "sqlite_error \<Rightarrow> string" where
  "str (IntegrityError m) = m"
| "str (OperationalError m) = m"

definition no_such_table :: sqlite_error where
  "no_such_table = OperationalError ''no such table: movies''"

definition no_such_column :: "string \<Rightarrow> sqlite_error" where
  "no_such_column key = OperationalError (''no such column: '' @ key)"

definition unique_failed :: sqlite_error where
  "unique_failed = IntegrityError ''UNIQUE constraint failed: movies.movie_id''"

text \<open>
  Binding a Python integer to a \<open>?\<close> of a statement converts it to SQLite's signed
  64-bit \<^verbatim>\<open>INTEGER\<close>. For an integer outside that range the \<^verbatim>\<open>sqlite3\<close> module
  raises \<^verbatim>\<open>OverflowError\<close>, which is not a subclass of \<^verbatim>\<open>sqlite3.Error\<close>: no
  \<^verbatim>\<open>except\<close> clause of the methods catches it, and it leaves the method.
\<close>

datatype python_exception = OverflowError

definition int64 :: "int \<Rightarrow> bool" where
  "int64 i = (- (2 ^ 63) \<le> i \<and> i < 2 ^ 63)"

section \<open>Text functions of the storage engine\<close>

text \<open>
  \<^verbatim>\<open>LIKE\<close> compares without regard to the case of ASCII letters; \<open>%\<close> in the
  pattern matches any run of characters (also the empty one), \<open>_\<close> matches exactly one
  character, and no escape character is in force. The first argument is the pattern.
\<close>

definition sqlite_tolower :: "char \<Rightarrow> char" where
  "sqlite_tolower c =
     (if (65::nat) \<le> of_char c \<and> of_char c \<le> (90::nat)
      then char_of (of_char c + (32::nat)) else c)"

fun sql_like :: "string \<Rightarrow> string \<Rightarrow> bool" where
  "sql_like [] s = (s = [])"
| "sql_like (p # ps) [] = (p = CHR ''%'' \<and> sql_like ps [])"
| "sql_like (p # ps) (c # cs) =
     (if p = CHR ''%'' then sql_like ps (c # cs) \<or> sql_like (p # ps) cs
      else (p = CHR ''_'' \<or> sqlite_tolower p = sqlite_tolower c) \<and> sql_like ps cs)"

text \<open>The decimal text of an integer, as SQLite renders the id column for \<^verbatim>\<open>LIKE\<close>.\<close>

fun nat_text :: "nat \<Rightarrow> string" where
  "nat_text n =
     (if n < 10 then [char_of (48 + n)]
      else nat_text (n div 10) @ [char_of (48 + n mod 10)])"

definition int_text :: "int \<Rightarrow> string" where
  "int_text i = (if i < 0 then CHR ''-'' # nat_text (nat (- i)) else nat_text (nat i))"

section \<open>REAL values\<close>

text \<open>
  A \<^verbatim>\<open>REAL\<close> of the engine and a \<^verbatim>\<open>float\<close> of Python are IEEE doubles, and every
  operation on them rounds to the nearest double. The model does not compute that
  rounding. It carries the value of a double only where the operation that produced it
  is exact, and says \<open>Inexact\<close> otherwise: \<open>Inexact\<close> stands for a double (an
  infinity or a NaN included) that this model does not determine, not for a value of
  its own.
  Nothing is stated about a result that is \<open>Inexact\<close>.

  \<open>exact_double q\<close> is a sufficient test for \<open>q\<close> to be a double: an integer below
  \<open>2^53\<close> in magnitude over a power of two that is at most \<open>2^52\<close>.
\<close>

datatype real_value = Exact rat | Inexact

definition exact_double :: "rat \<Rightarrow> bool" where
  "exact_double q = (case quotient_of q of (a, b) \<Rightarrow> \<bar>a\<bar> < 2 ^ 53 \<and> b dvd 2 ^ 52)"

text \<open>
  \<^verbatim>\<open>CAST(x AS REAL)\<close> on text: leading white space is skipped, then the longest
  prefix that reads as a number (sign, digits, a fraction, an exponent that has at least
  one digit) is converted and the rest ignored; text with no such prefix gives \<open>0.0\<close>.
  The conversion is exact when the prefix has at most 15 digits, a decimal exponent
  between \<open>-22\<close> and \<open>22\<close>, and a value that is a double; the model carries the value
  in that case only.
\<close>

definition is_space :: "char \<Rightarrow> bool" where
  "is_space c = (of_char c \<in> {32, 9, 10, 11, 12, 13 :: nat})"

definition is_digit :: "char \<Rightarrow> bool" where
  "is_digit c = ((48::nat) \<le> of_char c \<and> of_char c \<le> (57::nat))"

definition digits_value :: "string \<Rightarrow> int" where
  "digits_value ds = foldl (\<lambda>a c. 10 * a + (of_char c - 48)) 0 ds"

definition scan_sign :: "string \<Rightarrow> bool \<times> string" where
  "scan_sign s =
     (case s of
        [] \<Rightarrow> (False, [])
      | c # r \<Rightarrow> if c = CHR ''-'' then (True, r)
                 else if c = CHR ''+'' then (False, r) else (False, s))"

definition scan_fraction :: "string \<Rightarrow> string \<times> string" where
  "scan_fraction s =
     (case s of
        [] \<Rightarrow> ([], [])
      | c # r \<Rightarrow> if c = CHR ''.'' then (takeWhile is_digit r, dropWhile is_digit r)
                 else ([], s))"

definition scan_exponent :: "string \<Rightarrow> int" where
  "scan_exponent s =
     (case s of
        [] \<Rightarrow> 0
      | c # r \<Rightarrow>
          if c = CHR ''e'' \<or> c = CHR ''E'' then
            (let (neg, r') = scan_sign r; ds = takeWhile is_digit r'
             in if ds = [] then 0
                else if neg then - digits_value ds else digits_value ds)
          else 0)"

definition scale10 :: "rat \<Rightarrow> int \<Rightarrow> rat" where
  "scale10 x e = (if 0 \<le> e then x * 10 ^ nat e else x / 10 ^ nat (- e))"

definition carried :: "rat \<Rightarrow> real_value" where
  "carried q = (if exact_double q then Exact q else Inexact)"

definition cast_parts :: "bool \<Rightarrow> string \<Rightarrow> int \<Rightarrow> real_value" where
  "cast_parts neg digits e =
     (if digits = [] then Exact 0
      else if length digits \<le> 15 \<and> - 22 \<le> e \<and> e \<le> 22
      then carried (scale10 (if neg then - of_int (digits_value digits)
                             else of_int (digits_value digits)) e)
      else Inexact)"

fun cast_fraction :: "bool \<Rightarrow> string \<Rightarrow> string \<times> string \<Rightarrow> real_value" where
  "cast_fraction neg ip (fp, s2) = cast_parts neg (ip @ fp) (scan_exponent s2 - int (length fp))"

fun cast_digits :: "bool \<times> string \<Rightarrow> real_value" where
  "cast_digits (neg, s1) =
     cast_fraction neg (takeWhile is_digit s1) (scan_fraction (dropWhile is_digit s1))"

definition cast_real :: "string \<Rightarrow> real_value" where
  "cast_real s = cast_digits (scan_sign (dropWhile is_space s))"

text \<open>
  \<^verbatim>\<open>AVG\<close> adds the values in the order of the rows and divides the sum by their
  number. The sum is carried while every running sum is a double, the quotient when it
  is a double.
\<close>

fun sum_real :: "rat \<Rightarrow> real_value list \<Rightarrow> real_value" where
  "sum_real acc [] = Exact acc"
| "sum_real acc (Inexact # xs) = Inexact"
| "sum_real acc (Exact x # xs) =
     (if exact_double (acc + x) then sum_real (acc + x) xs else Inexact)"

fun divide_real :: "real_value \<Rightarrow> nat \<Rightarrow> real_value" where
  "divide_real Inexact n = Inexact"
| "divide_real (Exact s) n =
     (if exact_double (s / of_nat n) then Exact (s / of_nat n) else Inexact)"

definition avg :: "real_value list \<Rightarrow> real_value option" where
  "avg xs = (if xs = [] then None else Some (divide_real (sum_real 0 xs) (length xs)))"

text \<open>
  \<^verbatim>\<open>round(x, 2)\<close> on a float gives the double nearest to the multiple of \<open>1/100\<close>
  that is nearest to \<open>x\<close>, a tie going to the even neighbour. The result is carried
  when that multiple is a double.
\<close>

definition round_half_even :: "rat \<Rightarrow> int" where
  "round_half_even x =
     (let f = \<lfloor>x\<rfloor>; d = x - of_int f
      in if d < 1 / 2 then f
         else if 1 / 2 < d then f + 1
         else if even f then f else f + 1)"

definition round2 :: "rat \<Rightarrow> rat" where
  "round2 x = of_int (round_half_even (x * 100)) / 100"

fun round_real :: "real_value \<Rightarrow> real_value" where
  "round_real Inexact = Inexact"
| "round_real (Exact x) = (if exact_double (round2 x) then Exact (round2 x) else Inexact)"

section \<open>The statements the program executes\<close>

text \<open>
  Each statement takes the database and returns what \<^verbatim>\<open>cur.execute\<close> yields (the
  exception raised, or the rows, row count or value) together with the database after
  it. A statement that raises leaves the database as it was: the connection's
  \<^verbatim>\<open>with\<close> block rolls back.
\<close>

type_synonym 'a executed = "(sqlite_error + 'a) \<times> database"

definition create_table_if_not_exists :: "database \<Rightarrow> unit executed" where
  "create_table_if_not_exists db =
     (case db of
        None \<Rightarrow> (Inr (), Some \<lparr>rows = [], seq = 0\<rparr>)
      | Some t \<Rightarrow> (Inr (), Some t))"

text \<open>
  \<^verbatim>\<open>AUTOINCREMENT\<close>: the new rowid is one more than the larger of the counter and
  the largest rowid in the table.
\<close>

definition next_rowid :: "table \<Rightarrow> int" where
  "next_rowid t = max (seq t) (fold max (map id_col (rows t)) 0) + 1"

definition insert_into_movies ::
  "string \<Rightarrow> string \<Rightarrow> string \<Rightarrow> string \<Rightarrow> string \<Rightarrow> string \<Rightarrow> string \<Rightarrow> string \<Rightarrow>
   database \<Rightarrow> unit executed" where
  "insert_into_movies mid name rel dir cst bud dur rat db =
     (case db of
        None \<Rightarrow> (Inl no_such_table, db)
      | Some t \<Rightarrow>
          if \<exists>r \<in> set (rows t). movie_id r = mid then (Inl unique_failed, db)
          else (Inr (),
                Some \<lparr>rows = rows t @
                        [\<lparr>id_col = next_rowid t, movie_id = mid, movie_name = name,
                          release_date = rel, director = dir, cast = cst, budget = bud,
                          duration = dur, rating = rat\<rparr>],
                      seq = next_rowid t\<rparr>))"

text \<open>\<^verbatim>\<open>SELECT * FROM movies ORDER BY id DESC\<close>\<close>

definition select_all_order_by_id_desc :: "database \<Rightarrow> movie list executed" where
  "select_all_order_by_id_desc db =
     (case db of
        None \<Rightarrow> (Inl no_such_table, db)
      | Some t \<Rightarrow> (Inr (rev (sort_key id_col (rows t))), db))"

text \<open>
  The search query interpolates each keyword of the call in front of \<^verbatim>\<open>LIKE ?\<close>,
  so the engine reads the key as SQL text. Three cases are told apart.
  \<^item> The key names a column: names are compared without regard to case, and
    \<^verbatim>\<open>rowid\<close>, \<^verbatim>\<open>oid\<close> and \<^verbatim>\<open>_rowid_\<close> name the integer primary key.
  \<^item> The key is a plain identifier (ASCII letters, digits and underscores, not
    starting with a digit) that names no column and is not a word with a meaning of
    its own: the statement fails with \<^verbatim>\<open>no such column\<close> when it is prepared.
  \<^item> Any other key is outside the model: a keyword of SQL, the words \<^verbatim>\<open>true\<close> and
    \<^verbatim>\<open>false\<close> (which the engine reads as values, as it does \<^verbatim>\<open>current_date\<close>,
    \<^verbatim>\<open>current_time\<close> and \<^verbatim>\<open>current_timestamp\<close>), the word \<^verbatim>\<open>self\<close> (which
    Python binds to the instance, so that it never reaches \<^verbatim>\<open>kwargs\<close>), and every
    text that is not a plain identifier (a quoted or qualified name, an expression, a
    comment). What a statement with such a key yields is not determined here.
\<close>

datatype column =
  ColId | ColMovieId | ColMovieName | ColReleaseDate | ColDirector | ColCast
  | ColBudget | ColDuration | ColRating

definition column_of :: "string \<Rightarrow> column option" where
  "column_of key =
     map_of
       [(''id'', ColId), (''rowid'', ColId), (''oid'', ColId), (''_rowid_'', ColId),
        (''movie_id'', ColMovieId), (''movie_name'', ColMovieName),
        (''release_date'', ColReleaseDate), (''director'', ColDirector),
        (''cast'', ColCast), (''budget'', ColBudget), (''duration'', ColDuration),
        (''rating'', ColRating)]
       (map sqlite_tolower key)"

definition identifier_char :: "char \<Rightarrow> bool" where
  "identifier_char c =
     (is_digit c \<or> c = CHR ''_'' \<or>
      ((65::nat) \<le> of_char c \<and> of_char c \<le> (90::nat)) \<or>
      ((97::nat) \<le> of_char c \<and> of_char c \<le> (122::nat)))"

definition plain_identifier :: "string \<Rightarrow> bool" where
  "plain_identifier key =
     (case key of
        [] \<Rightarrow> False
      | c # cs \<Rightarrow> \<not> is_digit c \<and> list_all identifier_char key)"

definition special_words :: "string list" where
  "special_words =
     [''self'', ''true'', ''false'',
      ''abort'', ''action'', ''add'', ''after'', ''all'', ''alter'', ''always'', ''analyze'',
      ''and'', ''as'', ''asc'', ''attach'', ''autoincrement'', ''before'', ''begin'',
      ''between'', ''by'', ''cascade'', ''case'', ''cast'', ''check'', ''collate'',
      ''column'', ''commit'', ''conflict'', ''constraint'', ''create'', ''cross'',
      ''current'', ''current_date'', ''current_time'', ''current_timestamp'',
      ''database'', ''default'', ''deferrable'', ''deferred'', ''delete'', ''desc'',
      ''detach'', ''distinct'', ''do'', ''drop'', ''each'', ''else'', ''end'', ''escape'',
      ''except'', ''exclude'', ''exclusive'', ''exists'', ''explain'', ''fail'',
      ''filter'', ''first'', ''following'', ''for'', ''foreign'', ''from'', ''full'',
      ''generated'', ''glob'', ''group'', ''groups'', ''having'', ''if'', ''ignore'',
      ''immediate'', ''in'', ''index'', ''indexed'', ''initially'', ''inner'', ''insert'',
      ''instead'', ''intersect'', ''into'', ''is'', ''isnull'', ''join'', ''key'',
      ''last'', ''left'', ''like'', ''limit'', ''match'', ''materialized'', ''natural'',
      ''no'', ''not'', ''nothing'', ''notnull'', ''null'', ''nulls'', ''of'', ''offset'',
      ''on'', ''or'', ''order'', ''others'', ''outer'', ''over'', ''partition'', ''plan'',
      ''pragma'', ''preceding'', ''primary'', ''query'', ''raise'', ''range'',
      ''recursive'', ''references'', ''regexp'', ''reindex'', ''release'', ''rename'',
      ''replace'', ''restrict'', ''returning'', ''right'', ''rollback'', ''row'',
      ''rows'', ''savepoint'', ''select'', ''set'', ''table'', ''temp'', ''temporary'',
      ''then'', ''ties'', ''to'', ''transaction'', ''trigger'', ''unbounded'', ''union'',
      ''unique'', ''update'', ''using'', ''vacuum'', ''values'', ''view'', ''virtual'',
      ''when'', ''where'', ''window'', ''with'', ''within'', ''without'']"

datatype resolution = Names column | NamesNothing | OutsideModel

definition resolve_key :: "string \<Rightarrow> resolution" where
  "resolve_key key =
     (case column_of key of
        Some c \<Rightarrow> Names c
      | None \<Rightarrow>
          if plain_identifier key \<and> map sqlite_tolower key \<notin> set special_words
          then NamesNothing else OutsideModel)"

fun column_text :: "column \<Rightarrow> movie \<Rightarrow> string" where
  "column_text ColId r = int_text (id_col r)"
| "column_text ColMovieId r = movie_id r"
| "column_text ColMovieName r = movie_name r"
| "column_text ColReleaseDate r = release_date r"
| "column_text ColDirector r = director r"
| "column_text ColCast r = cast r"
| "column_text ColBudget r = budget r"
| "column_text ColDuration r = duration r"
| "column_text ColRating r = rating r"

text \<open>One condition \<^verbatim>\<open>key LIKE ?\<close> with its bound parameter, on one row.\<close>

definition like_condition :: "string \<times> string \<Rightarrow> movie \<Rightarrow> bool" where
  "like_condition cond r =
     (case column_of (fst cond) of
        None \<Rightarrow> False
      | Some c \<Rightarrow> sql_like (snd cond) (column_text c r))"

text \<open>
  \<^verbatim>\<open>SELECT * FROM movies WHERE k1 LIKE ? OR k2 LIKE ? ...\<close> with one parameter per
  condition. Without \<^verbatim>\<open>ORDER BY\<close> the rows come in the order of the table scan.
  \<open>Undetermined\<close> marks a call whose result (rows, or an exception of whatever
  class) this model does not state; a \<^verbatim>\<open>SELECT\<close> never writes, so the database is
  the same in every case.
\<close>

datatype 'a outcome = Determined 'a | Undetermined

definition select_where_like ::
  "(string \<times> string) list \<Rightarrow> database \<Rightarrow> (sqlite_error + movie list) outcome \<times> database" where
  "select_where_like conds db =
     (if \<exists>cond \<in> set conds. resolve_key (fst cond) = OutsideModel then (Undetermined, db)
      else
        (case db of
           None \<Rightarrow> (Determined (Inl no_such_table), db)
         | Some t \<Rightarrow>
             (case filter (\<lambda>cond. column_of (fst cond) = None) conds of
                cond # _ \<Rightarrow> (Determined (Inl (no_such_column (fst cond))), db)
              | [] \<Rightarrow>
                  (Determined
                     (Inr (filter (\<lambda>r. \<exists>cond \<in> set conds. like_condition cond r) (rows t))),
                   db))))"

text \<open>
  The three statements that take an id bind it after the statement is prepared: a
  missing table is reported first, then an id outside the 64-bit range raises
  \<^verbatim>\<open>OverflowError\<close>.

  \<^verbatim>\<open>UPDATE movies SET movie_id=?, ... WHERE id=?\<close> yields the number of rows changed.
  The \<^verbatim>\<open>UNIQUE\<close> constraint fails when a row is changed and another row already
  holds the new \<^verbatim>\<open>movie_id\<close>.
\<close>

type_synonym 'a executed_with_id = "(python_exception + sqlite_error + 'a) \<times> database"

definition update_movies ::
  "string \<Rightarrow> string \<Rightarrow> string \<Rightarrow> string \<Rightarrow> string \<Rightarrow> string \<Rightarrow> string \<Rightarrow> string \<Rightarrow> int \<Rightarrow>
   database \<Rightarrow> nat executed_with_id" where
  "update_movies mid name rel dir cst bud dur rat record_id db =
     (case db of
        None \<Rightarrow> (Inr (Inl no_such_table), db)
      | Some t \<Rightarrow>
          if \<not> int64 record_id then (Inl OverflowError, db)
          else if (\<exists>r \<in> set (rows t). id_col r = record_id) \<and>
                  (\<exists>r \<in> set (rows t). id_col r \<noteq> record_id \<and> movie_id r = mid)
          then (Inr (Inl unique_failed), db)
          else (Inr (Inr (length (filter (\<lambda>r. id_col r = record_id) (rows t)))),
                Some (t\<lparr>rows :=
                  map (\<lambda>r. if id_col r = record_id
                            then r\<lparr>movie_id := mid, movie_name := name, release_date := rel,
                                   director := dir, cast := cst, budget := bud,
                                   duration := dur, rating := rat\<rparr>
                            else r) (rows t)\<rparr>)))"

text \<open>\<^verbatim>\<open>DELETE FROM movies WHERE id=?\<close> yields the number of rows removed.\<close>

definition delete_from_movies :: "int \<Rightarrow> database \<Rightarrow> nat executed_with_id" where
  "delete_from_movies record_id db =
     (case db of
        None \<Rightarrow> (Inr (Inl no_such_table), db)
      | Some t \<Rightarrow>
          if \<not> int64 record_id then (Inl OverflowError, db)
          else (Inr (Inr (length (filter (\<lambda>r. id_col r = record_id) (rows t)))),
                Some (t\<lparr>rows := filter (\<lambda>r. id_col r \<noteq> record_id) (rows t)\<rparr>)))"

text \<open>\<^verbatim>\<open>SELECT * FROM movies WHERE id=?\<close>\<close>

definition select_where_id :: "int \<Rightarrow> database \<Rightarrow> movie list executed_with_id" where
  "select_where_id record_id db =
     (case db of
        None \<Rightarrow> (Inr (Inl no_such_table), db)
      | Some t \<Rightarrow>
          if \<not> int64 record_id then (Inl OverflowError, db)
          else (Inr (Inr (filter (\<lambda>r. id_col r = record_id) (rows t))), db))"

text \<open>\<^verbatim>\<open>SELECT COUNT(*) FROM movies\<close>\<close>

definition select_count :: "database \<Rightarrow> nat executed" where
  "select_count db =
     (case db of
        None \<Rightarrow> (Inl no_such_table, db)
      | Some t \<Rightarrow> (Inr (length (rows t)), db))"

text \<open>
  \<^verbatim>\<open>SELECT AVG(CAST(rating AS REAL)) FROM movies WHERE rating != ''\<close>: the average of
  no rows is \<^verbatim>\<open>NULL\<close>, which Python receives as \<^verbatim>\<open>None\<close>.
\<close>

definition rated_values :: "movie list \<Rightarrow> real_value list" where
  "rated_values rs = map (\<lambda>r. cast_real (rating r)) (filter (\<lambda>r. rating r \<noteq> []) rs)"

definition select_avg_rating :: "database \<Rightarrow> real_value option executed" where
  "select_avg_rating db =
     (case db of
        None \<Rightarrow> (Inl no_such_table, db)
      | Some t \<Rightarrow> (Inr (avg (rated_values (rows t))), db))"

section \<open>The methods of \<^verbatim>\<open>MovieDatabase\<close>\<close>

text \<open>
  Every method is a function of the database that returns its Python result and the
  database after the call. The writing methods return \<^verbatim>\<open>(success, message)\<close>. The
  three methods that take an id either return (\<open>Inr\<close>) or let the
  \<^verbatim>\<open>OverflowError\<close> of the binding pass (\<open>Inl\<close>). What the methods \<^verbatim>\<open>print\<close>
  on an exception is not modelled.
\<close>

definition initialize_database :: "database \<Rightarrow> unit executed" where
  "initialize_database db = create_table_if_not_exists db"

definition required_message :: string where
  "required_message = ''Movie ID and Movie Name are required!''"

definition exists_message :: "string \<Rightarrow> string" where
  "exists_message mid = ''Movie ID '' @ [CHR 0x27] @ mid @ [CHR 0x27] @ '' already exists!''"

definition add_movie ::
  "string \<Rightarrow> string \<Rightarrow> string \<Rightarrow> string \<Rightarrow> string \<Rightarrow> string \<Rightarrow> string \<Rightarrow> string \<Rightarrow>
   database \<Rightarrow> (bool \<times> string) \<times> database" where
  "add_movie mid name rel dir cst bud dur rat db =
     (if mid = [] \<or> name = [] then ((False, required_message), db)
      else
        (case insert_into_movies mid name rel dir cst bud dur rat db of
           (Inr _, db') \<Rightarrow> ((True, ''Movie added successfully!''), db')
         | (Inl (IntegrityError m), db') \<Rightarrow> ((False, exists_message mid), db')
         | (Inl e, db') \<Rightarrow> ((False, ''Database error: '' @ str e), db')))"

definition view_all_movies :: "database \<Rightarrow> movie list \<times> database" where
  "view_all_movies db =
     (case select_all_order_by_id_desc db of
        (Inr fetched, db') \<Rightarrow> (fetched, db')
      | (Inl e, db') \<Rightarrow> ([], db'))"

text \<open>
  \<^verbatim>\<open>**kwargs\<close> is the dictionary of the keyword arguments in call order: a list of
  key and value. The loop keeps the keys whose value is not empty and wraps each value
  in \<open>%\<close>.
\<close>

definition search_conditions :: "(string \<times> string) list \<Rightarrow> (string \<times> string) list" where
  "search_conditions kwargs =
     map (\<lambda>kv. (fst kv, ''%'' @ snd kv @ ''%'')) (filter (\<lambda>kv. snd kv \<noteq> []) kwargs)"

definition search_movies ::
  "(string \<times> string) list \<Rightarrow> database \<Rightarrow> movie list outcome \<times> database" where
  "search_movies kwargs db =
     (if search_conditions kwargs = []
      then (Determined (fst (view_all_movies db)), snd (view_all_movies db))
      else
        (case select_where_like (search_conditions kwargs) db of
           (Determined (Inr fetched), db') \<Rightarrow> (Determined fetched, db')
         | (Determined (Inl e), db') \<Rightarrow> (Determined [], db')
         | (Undetermined, db') \<Rightarrow> (Undetermined, db')))"

definition update_movie ::
  "int \<Rightarrow> string \<Rightarrow> string \<Rightarrow> string \<Rightarrow> string \<Rightarrow> string \<Rightarrow> string \<Rightarrow> string \<Rightarrow> string \<Rightarrow>
   database \<Rightarrow> (python_exception + bool \<times> string) \<times> database" where
  "update_movie record_id mid name rel dir cst bud dur rat db =
     (if mid = [] \<or> name = [] then (Inr (False, required_message), db)
      else
        (case update_movies mid name rel dir cst bud dur rat record_id db of
           (Inr (Inr rowcount), db') \<Rightarrow>
             if rowcount = 0 then (Inr (False, ''No record found to update!''), db')
             else (Inr (True, ''Movie updated successfully!''), db')
         | (Inr (Inl (IntegrityError m)), db') \<Rightarrow> (Inr (False, exists_message mid), db')
         | (Inr (Inl e), db') \<Rightarrow> (Inr (False, ''Update error: '' @ str e), db')
         | (Inl raised, db') \<Rightarrow> (Inl raised, db')))"

definition delete_movie ::
  "int \<Rightarrow> database \<Rightarrow> (python_exception + bool \<times> string) \<times> database" where
  "delete_movie record_id db =
     (case delete_from_movies record_id db of
        (Inr (Inr rowcount), db') \<Rightarrow>
          if rowcount = 0 then (Inr (False, ''No record found to delete!''), db')
          else (Inr (True, ''Movie deleted successfully!''), db')
      | (Inr (Inl e), db') \<Rightarrow> (Inr (False, ''Delete error: '' @ str e), db')
      | (Inl raised, db') \<Rightarrow> (Inl raised, db'))"

text \<open>\<^verbatim>\<open>fetchone\<close> gives the first row of the result, or \<^verbatim>\<open>None\<close>.\<close>

definition fetchone :: "'a list \<Rightarrow> 'a option" where
  "fetchone fetched = (case fetched of [] \<Rightarrow> None | r # _ \<Rightarrow> Some r)"

definition get_movie_by_id ::
  "int \<Rightarrow> database \<Rightarrow> (python_exception + movie option) \<times> database" where
  "get_movie_by_id record_id db =
     (case select_where_id record_id db of
        (Inr (Inr fetched), db') \<Rightarrow> (Inr (fetchone fetched), db')
      | (Inr (Inl e), db') \<Rightarrow> (Inr None, db')
      | (Inl raised, db') \<Rightarrow> (Inl raised, db'))"

text \<open>
  The dictionary that \<^verbatim>\<open>get_statistics\<close> returns has two fixed keys and is a record
  here; \<^verbatim>\<open>if avg_rating\<close> is false for \<^verbatim>\<open>None\<close> and for \<open>0.0\<close>, and the
  \<open>0\<close> returned then is the integer.
\<close>

record statistics =
  total_movies :: nat
  average_rating :: real_value

definition get_statistics :: "database \<Rightarrow> statistics \<times> database" where
  "get_statistics db =
     (case select_count db of
        (Inl e, db1) \<Rightarrow> (\<lparr>total_movies = 0, average_rating = Exact 0\<rparr>, db1)
      | (Inr n, db1) \<Rightarrow>
          (case select_avg_rating db1 of
             (Inl e, db2) \<Rightarrow> (\<lparr>total_movies = 0, average_rating = Exact 0\<rparr>, db2)
           | (Inr avg_rating, db2) \<Rightarrow>
               (\<lparr>total_movies = n,
                 average_rating =
                   (case avg_rating of
                      None \<Rightarrow> Exact 0
                    | Some Inexact \<Rightarrow> Inexact
                    | Some (Exact a) \<Rightarrow> if a \<noteq> 0 then round_real (Exact a) else Exact 0)\<rparr>,
                db2)))"

text \<open>
  The module-level wrapper \<^verbatim>\<open>SearchMovieData\<close> passes the eight text columns as
  keywords, in this order.
\<close>

definition SearchMovieData ::
  "string \<Rightarrow> string \<Rightarrow> string \<Rightarrow> string \<Rightarrow> string \<Rightarrow> string \<Rightarrow> string \<Rightarrow> string \<Rightarrow>
   database \<Rightarrow> movie list outcome \<times> database" where
  "SearchMovieData mid name rel dir cst bud dur rat db =
     search_movies
       [(''movie_id'', mid), (''movie_name'', name), (''release_date'', rel),
        (''director'', dir), (''cast'', cst), (''budget'', bud), (''duration'', dur),
        (''rating'', rat)] db"

section \<open>Derived notions used in the statements below\<close>

text \<open>
  The constraints of the schema as a predicate on a table: the primary key and the
  \<^verbatim>\<open>UNIQUE\<close> column have no repeated value.
\<close>

definition constraints_hold :: "table \<Rightarrow> bool" where
  "constraints_hold t =
     (distinct (map id_col (rows t)) \<and> distinct (map movie_id (rows t)))"

text \<open>
  A run of \<^verbatim>\<open>add_movie\<close> calls, one per tuple of arguments, that counts the calls
  which reported success.
\<close>

type_synonym movie_args =
  "string \<times> string \<times> string \<times> string \<times> string \<times> string \<times> string \<times> string"

fun add_movie_args :: "movie_args \<Rightarrow> database \<Rightarrow> (bool \<times> string) \<times> database" where
  "add_movie_args (mid, name, rel, dir, cst, bud, dur, rat) db =
     add_movie mid name rel dir cst bud dur rat db"

fun add_movies :: "movie_args list \<Rightarrow> database \<Rightarrow> nat \<times> database" where
  "add_movies [] db = (0, db)"
| "add_movies (a # as) db =
     (case add_movie_args a db of
        ((ok, msg), db') \<Rightarrow>
          (case add_movies as db' of
             (n, db'') \<Rightarrow> ((if ok then Suc n else n), db'')))"

text \<open>
  The specification's reading of a substring filter, for comparison with
  \<^verbatim>\<open>LIKE\<close>: the value occurs in the field as a contiguous run of characters, with
  ASCII letters compared without regard to case.
\<close>

definition contains_nocase :: "string \<Rightarrow> string \<Rightarrow> bool" where
  "contains_nocase field v = sublist (map sqlite_tolower v) (map sqlite_tolower field)"

definition wildcard_free :: "string \<Rightarrow> bool" where
  "wildcard_free v = (CHR ''%'' \<notin> set v \<and> CHR ''_'' \<notin> set v)"

text \<open>
  The scenario of the specification's section 8: two successful adds to the empty
  table leave these rows and this counter.
\<close>

definition inception :: movie where
  "inception =
     \<lparr>id_col = 1, movie_id = ''M1'', movie_name = ''Inception'', release_date = [],
      director = [], cast = [], budget = [], duration = [], rating = ''4.5''\<rparr>"

definition interstellar :: movie where
  "interstellar =
     \<lparr>id_col = 2, movie_id = ''M2'', movie_name = ''Interstellar'', release_date = [],
      director = [], cast = [], budget = [], duration = [], rating = ''4.8''\<rparr>"

definition scenario :: table where
  "scenario = \<lparr>rows = [inception, interstellar], seq = 2\<rparr>"

text \<open>
  One filter of the specification on one row: the key names a column and the value
  occurs in that column's text.
\<close>

definition field_contains :: "string \<times> string \<Rightarrow> movie \<Rightarrow> bool" where
  "field_contains kv r =
     (case column_of (fst kv) of
        None \<Rightarrow> False
      | Some c \<Rightarrow> contains_nocase (column_text c r) (snd kv))"




section \<open>Validation of the required fields\<close>

text \<open>
  Claim C2, as the code has it: for every input whose \<^verbatim>\<open>movie_id\<close> or
  \<^verbatim>\<open>movie_name\<close> is the empty string, \<^verbatim>\<open>add_movie\<close> and \<^verbatim>\<open>update_movie\<close>
  return failure with the message that both are required, and the database is the one
  they were given. The test is \<^verbatim>\<open>not movie_id or not movie_name\<close>, made before
  any connection is opened.
\<close>

theorem empty_required_field_rejected:
  "mid = [] \<or> name = [] \<Longrightarrow>
   add_movie mid name rel dir cst bud dur rat db = ((False, required_message), db) \<and>
   update_movie record_id mid name rel dir cst bud dur rat db =
     (Inr (False, required_message), db)"
  by (auto simp: add_movie_def update_movie_def)

theorem empty_required_field_rejected_witness:
  "add_movie [] ''Heat'' [] [] [] [] [] [] None = ((False, required_message), None) \<and>
   update_movie 1 [] ''Heat'' [] [] [] [] [] [] None = (Inr (False, required_message), None)"
  using empty_required_field_rejected
    [of "[]" "''Heat''" "[]" "[]" "[]" "[]" "[]" "[]" None 1]
  by simp

text \<open>
  A \<^verbatim>\<open>movie_id\<close> that consists of one space is not empty for Python: on the empty
  table \<^verbatim>\<open>add_movie\<close> accepts it and writes the row.
\<close>

theorem whitespace_movie_id_is_added:
  "add_movie '' '' ''Heat'' [] [] [] [] [] [] (Some \<lparr>rows = [], seq = 0\<rparr>) =
     ((True, ''Movie added successfully!''),
      Some \<lparr>rows = [\<lparr>id_col = 1, movie_id = '' '', movie_name = ''Heat'',
                      release_date = [], director = [], cast = [], budget = [],
                      duration = [], rating = []\<rparr>],
            seq = 1\<rparr>)"
  by (simp add: add_movie_def insert_into_movies_def next_rowid_def)

section \<open>Initialization\<close>

text \<open>
  Claim C8: \<^verbatim>\<open>initialize_database\<close> is idempotent. It never raises, it creates
  the empty table when the database has none, it returns a database that already has
  the table as it is, rows and counter included, and running it a second time gives
  the result of running it once.
\<close>

theorem initialize_database_idempotent:
  "fst (initialize_database db) = Inr () \<and>
   snd (initialize_database None) = Some \<lparr>rows = [], seq = 0\<rparr> \<and>
   snd (initialize_database (Some t)) = Some t \<and>
   initialize_database (snd (initialize_database db)) = initialize_database db"
  by (simp add: initialize_database_def create_table_if_not_exists_def split: option.split)

section \<open>The reading methods leave the database alone\<close>

text \<open>
  Claim C10: \<^verbatim>\<open>view_all_movies\<close>, \<^verbatim>\<open>search_movies\<close>, \<^verbatim>\<open>get_movie_by_id\<close>
  and \<^verbatim>\<open>get_statistics\<close> return the database they were given, for every database
  (with or without the table) and every argument: they execute \<^verbatim>\<open>SELECT\<close>
  statements only, and those neither change a row nor the counter. That includes the
  calls in which \<^verbatim>\<open>get_movie_by_id\<close> raises and those whose result this model
  leaves undetermined.
\<close>

theorem reading_methods_preserve_database:
  "snd (view_all_movies db) = db \<and>
   snd (search_movies kwargs db) = db \<and>
   snd (get_movie_by_id record_id db) = db \<and>
   snd (get_statistics db) = db"
  by (simp add: view_all_movies_def search_movies_def get_movie_by_id_def
        get_statistics_def select_all_order_by_id_desc_def select_where_like_def
        select_where_id_def select_count_def select_avg_rating_def
      split: option.split list.split real_value.split)

section \<open>Auxiliary facts about rows and row ids\<close>

lemmas scenario_defs = scenario_def inception_def interstellar_def

lemma filter_id_none:
  "\<forall>r \<in> set rs. id_col r \<noteq> i \<Longrightarrow> filter (\<lambda>r. id_col r = i) rs = []"
  by (induction rs) auto

lemma filter_id_all:
  "\<forall>r \<in> set rs. id_col r \<noteq> i \<Longrightarrow> filter (\<lambda>r. id_col r \<noteq> i) rs = rs"
  by (induction rs) auto

lemma map_id_same:
  "\<forall>r \<in> set rs. id_col r \<noteq> i \<Longrightarrow> map (\<lambda>r. if id_col r = i then f r else r) rs = rs"
  by (induction rs) auto

lemma filter_id_some: "r \<in> set rs \<Longrightarrow> filter (\<lambda>x. id_col x = id_col r) rs \<noteq> []"
  by (induction rs) auto

lemma fold_max_ge: "(a::int) \<le> fold max xs a"
proof (induction xs arbitrary: a)
  case Nil
  show ?case by simp
next
  case (Cons y ys)
  have "a \<le> max y a" by simp
  also have "max y a \<le> fold max ys (max y a)" by (rule Cons.IH)
  finally show ?case by simp
qed

lemma fold_max_mem: "x \<in> set xs \<Longrightarrow> x \<le> fold max xs (a::int)"
proof (induction xs arbitrary: a)
  case Nil
  then show ?case by simp
next
  case (Cons y ys)
  show ?case
  proof (cases "x = y")
    case True
    have "max y a \<le> fold max ys (max y a)" by (rule fold_max_ge)
    with True show ?thesis by simp
  next
    case False
    with Cons show ?thesis by simp
  qed
qed

text \<open>The id that \<^verbatim>\<open>AUTOINCREMENT\<close> hands out is larger than every id in the table.\<close>

lemma next_rowid_fresh: "r \<in> set (rows t) \<Longrightarrow> id_col r < next_rowid t"
proof -
  assume "r \<in> set (rows t)"
  then have "id_col r \<le> fold max (map id_col (rows t)) 0"
    by (intro fold_max_mem) simp
  then show ?thesis by (simp add: next_rowid_def)
qed

lemma distinct_movie_id_same:
  assumes "distinct (map movie_id rs)" "r \<in> set rs" "r' \<in> set rs" "movie_id r' = movie_id r"
  shows "r' = r"
proof -
  from assms(1) have "inj_on movie_id (set rs)" by (simp add: distinct_map)
  with assms(2-4) show ?thesis by (auto dest: inj_onD)
qed

lemma view_all_Some: "view_all_movies (Some t) = (rev (sort_key id_col (rows t)), Some t)"
  by (simp add: view_all_movies_def select_all_order_by_id_desc_def)

lemma desc_sorted: "sorted_wrt (\<lambda>a b. b \<le> a) (map id_col (rev (sort_key id_col rs)))"
proof -
  have "sorted_wrt (\<le>) (map id_col (sort_key id_col rs))" by simp
  then have "sorted_wrt (\<lambda>a b. b \<le> a) (rev (map id_col (sort_key id_col rs)))"
    unfolding sorted_wrt_rev .
  then show ?thesis by (simp add: rev_map)
qed

lemma desc_strict:
  "distinct (map id_col rs) \<Longrightarrow>
   sorted_wrt (\<lambda>a b. b < a) (map id_col (rev (sort_key id_col rs)))"
proof -
  assume d: "distinct (map id_col rs)"
  have "mset (map id_col (sort_key id_col rs)) = mset (map id_col rs)" by simp
  then have "distinct (map id_col (sort_key id_col rs))"
    using d by (metis distinct_map distinct_sort set_sort)
  then have "sorted_wrt (<) (map id_col (sort_key id_col rs))"
    by (simp add: strict_sorted_iff)
  then have "sorted_wrt (\<lambda>a b. b < a) (rev (map id_col (sort_key id_col rs)))"
    unfolding sorted_wrt_rev .
  then show ?thesis by (simp add: rev_map)
qed

text \<open>
  A call of \<^verbatim>\<open>add_movie\<close> either fails and leaves the table, or succeeds and
  appends one row with the next id.
\<close>

lemma add_movie_cases:
  "add_movie mid name rel dir cst bud dur rat (Some t) = ((ok, msg), db') \<Longrightarrow>
   (\<not> ok \<and> db' = Some t) \<or>
   (ok \<and> (\<exists>new. db' = Some \<lparr>rows = rows t @ [new], seq = next_rowid t\<rparr> \<and>
                id_col new = next_rowid t))"
  by (auto simp: add_movie_def insert_into_movies_def unique_failed_def split: if_splits)

lemma add_movies_rows:
  "add_movies as (Some t) = (n, db') \<Longrightarrow>
   \<exists>t'. db' = Some t' \<and> length (rows t') = length (rows t) + n \<and>
        (distinct (map id_col (rows t)) \<longrightarrow> distinct (map id_col (rows t')))"
proof (induction as arbitrary: t n db')
  case Nil
  then show ?case by auto
next
  case (Cons a as)
  obtain mid name rel dir cst bud dur rat
    where a: "a = (mid, name, rel, dir, cst, bud, dur, rat)"
    by (metis surj_pair)
  obtain ok msg db1
    where r: "add_movie mid name rel dir cst bud dur rat (Some t) = ((ok, msg), db1)"
    by (metis surj_pair)
  obtain m db2 where rest: "add_movies as db1 = (m, db2)"
    by (metis surj_pair)
  from Cons.prems a r rest have n: "n = (if ok then Suc m else m)" and db': "db' = db2"
    by auto
  from add_movie_cases[OF r] show ?case
  proof
    assume "\<not> ok \<and> db1 = Some t"
    with Cons.IH[of t m db2] rest n db' show ?thesis by auto
  next
    assume "ok \<and> (\<exists>new. db1 = Some \<lparr>rows = rows t @ [new], seq = next_rowid t\<rparr> \<and>
                       id_col new = next_rowid t)"
    then obtain new
      where ok: ok and db1: "db1 = Some \<lparr>rows = rows t @ [new], seq = next_rowid t\<rparr>"
        and idn: "id_col new = next_rowid t"
      by blast
    have fresh: "id_col new \<notin> id_col ` set (rows t)"
      using next_rowid_fresh[of _ t] idn by fastforce
    from Cons.IH[of "\<lparr>rows = rows t @ [new], seq = next_rowid t\<rparr>" m db2] rest db1
    obtain t' where t': "db2 = Some t'" "length (rows t') = length (rows t) + 1 + m"
      "distinct (map id_col (rows t @ [new])) \<longrightarrow> distinct (map id_col (rows t'))"
      by auto
    with fresh ok n db' show ?thesis by auto
  qed
qed

section \<open>Addressing a record that does not exist\<close>

text \<open>
  Claim C5, as the code has it: for every id within the signed 64-bit range that no
  stored record holds, \<^verbatim>\<open>delete_movie\<close> returns failure with the message that no
  record was found, and \<^verbatim>\<open>update_movie\<close> returns failure, both leaving the
  database as it was. The failure of \<^verbatim>\<open>update_movie\<close> carries the not-found
  message whenever the new \<^verbatim>\<open>movie_id\<close> and \<^verbatim>\<open>movie_name\<close> pass the validation
  that the method makes first.
\<close>

theorem missing_id_not_found:
  "int64 record_id \<Longrightarrow> \<forall>r \<in> set (rows t). id_col r \<noteq> record_id \<Longrightarrow>
   delete_movie record_id (Some t) = (Inr (False, ''No record found to delete!''), Some t) \<and>
   (\<exists>msg. update_movie record_id mid name rel dir cst bud dur rat (Some t) =
           (Inr (False, msg), Some t)) \<and>
   (mid \<noteq> [] \<and> name \<noteq> [] \<longrightarrow>
      update_movie record_id mid name rel dir cst bud dur rat (Some t) =
        (Inr (False, ''No record found to update!''), Some t))"
  by (auto simp: delete_movie_def delete_from_movies_def update_movie_def update_movies_def
      filter_id_none filter_id_all map_id_same)

theorem missing_id_not_found_witness:
  "delete_movie 7 (Some scenario) = (Inr (False, ''No record found to delete!''), Some scenario) \<and>
   update_movie 7 ''M9'' ''Heat'' [] [] [] [] [] [] (Some scenario) =
     (Inr (False, ''No record found to update!''), Some scenario)"
proof -
  have range: "int64 7"
    by (simp add: int64_def)
  have absent: "\<forall>r \<in> set (rows scenario). id_col r \<noteq> 7"
    by (simp add: scenario_defs)
  from missing_id_not_found[OF range absent, where mid = "''M9''" and name = "''Heat''"]
  show ?thesis by simp
qed

text \<open>
  The id \<open>2^63\<close> is held by no record of the scenario, yet neither method returns a
  failure for it: the binding raises \<^verbatim>\<open>OverflowError\<close>, which no \<^verbatim>\<open>except\<close>
  clause catches.
\<close>

theorem id_out_of_range_raises:
  "2 ^ 63 \<notin> id_col ` set (rows scenario) \<and>
   delete_movie (2 ^ 63) (Some scenario) = (Inl OverflowError, Some scenario) \<and>
   update_movie (2 ^ 63) ''M9'' ''Heat'' [] [] [] [] [] [] (Some scenario) =
     (Inl OverflowError, Some scenario)"
  by (simp add: delete_movie_def delete_from_movies_def update_movie_def update_movies_def
      int64_def scenario_defs)

section \<open>Adding a record and reading it back\<close>

text \<open>
  Claim C6: for every input whose \<^verbatim>\<open>movie_id\<close> and \<^verbatim>\<open>movie_name\<close> are not empty
  and whose \<^verbatim>\<open>movie_id\<close> no stored record holds, \<^verbatim>\<open>add_movie\<close> succeeds and
  appends one row under the next id; that id is held by no record stored before; and
  \<^verbatim>\<open>get_movie_by_id\<close> on that id, in the database after the add, returns the row
  whose eight fields are the eight arguments. The id handed out is an SQLite
  \<^verbatim>\<open>INTEGER\<close>, that is, the counter has not left the 64-bit range.
\<close>

theorem add_then_get_movie_by_id:
  assumes "mid \<noteq> []" and "name \<noteq> []" and "\<forall>r \<in> set (rows t). movie_id r \<noteq> mid"
    and "int64 (next_rowid t)"
  shows "add_movie mid name rel dir cst bud dur rat (Some t) =
           ((True, ''Movie added successfully!''),
            Some \<lparr>rows = rows t @
                    [\<lparr>id_col = next_rowid t, movie_id = mid, movie_name = name,
                      release_date = rel, director = dir, cast = cst, budget = bud,
                      duration = dur, rating = rat\<rparr>],
                  seq = next_rowid t\<rparr>) \<and>
         next_rowid t \<notin> id_col ` set (rows t) \<and>
         get_movie_by_id (next_rowid t)
             (snd (add_movie mid name rel dir cst bud dur rat (Some t))) =
           (Inr (Some \<lparr>id_col = next_rowid t, movie_id = mid, movie_name = name,
                        release_date = rel, director = dir, cast = cst, budget = bud,
                        duration = dur, rating = rat\<rparr>),
            snd (add_movie mid name rel dir cst bud dur rat (Some t)))"
proof -
  have added: "add_movie mid name rel dir cst bud dur rat (Some t) =
           ((True, ''Movie added successfully!''),
            Some \<lparr>rows = rows t @
                    [\<lparr>id_col = next_rowid t, movie_id = mid, movie_name = name,
                      release_date = rel, director = dir, cast = cst, budget = bud,
                      duration = dur, rating = rat\<rparr>],
                  seq = next_rowid t\<rparr>)"
    using assms(1-3) by (simp add: add_movie_def insert_into_movies_def)
  have fresh: "\<forall>r \<in> set (rows t). id_col r \<noteq> next_rowid t"
    using next_rowid_fresh by fastforce
  then have new: "next_rowid t \<notin> id_col ` set (rows t)"
    by auto
  have found: "get_movie_by_id (next_rowid t)
             (snd (add_movie mid name rel dir cst bud dur rat (Some t))) =
           (Inr (Some \<lparr>id_col = next_rowid t, movie_id = mid, movie_name = name,
                        release_date = rel, director = dir, cast = cst, budget = bud,
                        duration = dur, rating = rat\<rparr>),
            snd (add_movie mid name rel dir cst bud dur rat (Some t)))"
    using fresh assms(4)
    by (simp add: added get_movie_by_id_def select_where_id_def fetchone_def filter_id_none)
  from added new found show ?thesis by blast
qed

theorem add_then_get_movie_by_id_witness:
  "add_movie ''M2'' ''Interstellar'' [] [] [] [] [] ''4.8''
       (Some \<lparr>rows = [inception], seq = 1\<rparr>) =
     ((True, ''Movie added successfully!''), Some scenario) \<and>
   get_movie_by_id 2 (Some scenario) = (Inr (Some interstellar), Some scenario)"
proof -
  have next2: "next_rowid \<lparr>rows = [inception], seq = 1\<rparr> = 2"
    by (simp add: next_rowid_def inception_def)
  have valid: "''M2'' \<noteq> []" "''Interstellar'' \<noteq> []"
    "\<forall>r \<in> set (rows \<lparr>rows = [inception], seq = 1\<rparr>). movie_id r \<noteq> ''M2''"
    "int64 (next_rowid \<lparr>rows = [inception], seq = 1\<rparr>)"
    unfolding next2 by (simp_all add: inception_def int64_def)
  note inst = add_then_get_movie_by_id[OF valid, of "[]" "[]" "[]" "[]" "[]" "''4.8''"]
  from inst have "add_movie ''M2'' ''Interstellar'' [] [] [] [] [] ''4.8''
       (Some \<lparr>rows = [inception], seq = 1\<rparr>) =
     ((True, ''Movie added successfully!''),
      Some \<lparr>rows = rows \<lparr>rows = [inception], seq = 1\<rparr> @
                    [\<lparr>id_col = next_rowid \<lparr>rows = [inception], seq = 1\<rparr>, movie_id = ''M2'',
                      movie_name = ''Interstellar'',
                      release_date = [], director = [], cast = [], budget = [],
                      duration = [], rating = ''4.8''\<rparr>],
                  seq = next_rowid \<lparr>rows = [inception], seq = 1\<rparr>\<rparr>)"
    by (rule conjunct1)
  then have added: "add_movie ''M2'' ''Interstellar'' [] [] [] [] [] ''4.8''
       (Some \<lparr>rows = [inception], seq = 1\<rparr>) =
     ((True, ''Movie added successfully!''), Some scenario)"
    unfolding next2 by (simp add: scenario_def interstellar_def)
  from inst have "get_movie_by_id (next_rowid \<lparr>rows = [inception], seq = 1\<rparr>)
      (snd (add_movie ''M2'' ''Interstellar'' [] [] [] [] [] ''4.8''
        (Some \<lparr>rows = [inception], seq = 1\<rparr>))) =
      (Inr (Some \<lparr>id_col = next_rowid \<lparr>rows = [inception], seq = 1\<rparr>, movie_id = ''M2'',
              movie_name = ''Interstellar'',
              release_date = [], director = [], cast = [], budget = [],
              duration = [], rating = ''4.8''\<rparr>),
       snd (add_movie ''M2'' ''Interstellar'' [] [] [] [] [] ''4.8''
        (Some \<lparr>rows = [inception], seq = 1\<rparr>)))"
    by blast
  then have "get_movie_by_id 2 (Some scenario) = (Inr (Some interstellar), Some scenario)"
    unfolding next2 added by (simp add: interstellar_def)
  with added show ?thesis by simp
qed

section \<open>The uniqueness of \<^verbatim>\<open>movie_id\<close>\<close>

text \<open>
  The constraints of the schema hold in the empty table, and \<^verbatim>\<open>add_movie\<close>,
  \<^verbatim>\<open>update_movie\<close> and \<^verbatim>\<open>delete_movie\<close> keep them: they hold in every table
  that the methods reach from the initialized database.
\<close>

lemma constraints_initial: "constraints_hold \<lparr>rows = [], seq = 0\<rparr>"
  by (simp add: constraints_hold_def)

lemma add_movie_constraints:
  assumes "constraints_hold t"
    and "add_movie mid name rel dir cst bud dur rat (Some t) = (res, Some t')"
  shows "constraints_hold t'"
proof -
  from assms(2)
  have "t' = t \<or>
    ((\<forall>r \<in> set (rows t). movie_id r \<noteq> mid) \<and>
     t' = \<lparr>rows = rows t @
                [\<lparr>id_col = next_rowid t, movie_id = mid, movie_name = name,
                  release_date = rel, director = dir, cast = cst, budget = bud,
                  duration = dur, rating = rat\<rparr>],
              seq = next_rowid t\<rparr>)"
    by (auto simp: add_movie_def insert_into_movies_def unique_failed_def split: if_splits)
  then show ?thesis
  proof
    assume "t' = t"
    with assms(1) show ?thesis by simp
  next
    assume new: "(\<forall>r \<in> set (rows t). movie_id r \<noteq> mid) \<and>
     t' = \<lparr>rows = rows t @
                [\<lparr>id_col = next_rowid t, movie_id = mid, movie_name = name,
                  release_date = rel, director = dir, cast = cst, budget = bud,
                  duration = dur, rating = rat\<rparr>],
              seq = next_rowid t\<rparr>"
    have "next_rowid t \<notin> id_col ` set (rows t)"
      using next_rowid_fresh[of _ t] by fastforce
    moreover from new have "mid \<notin> movie_id ` set (rows t)"
      by auto
    ultimately show ?thesis
      using assms(1) new by (simp add: constraints_hold_def)
  qed
qed

lemma delete_movie_constraints:
  assumes "constraints_hold t" and "delete_movie record_id (Some t) = (res, Some t')"
  shows "constraints_hold t'"
proof -
  from assms(2) have "t' = t \<or> rows t' = filter (\<lambda>r. id_col r \<noteq> record_id) (rows t)"
    by (auto simp: delete_movie_def delete_from_movies_def split: if_splits)
  with assms(1) show ?thesis
    by (auto simp: constraints_hold_def distinct_map_filter)
qed

lemma update_keeps_movie_ids_distinct:
  assumes "distinct (map id_col rs)" and "distinct (map movie_id rs)"
    and "\<forall>x \<in> set rs. id_col x \<noteq> i \<longrightarrow> movie_id x \<noteq> m"
    and "\<And>x. movie_id (f x) = m"
  shows "distinct (map movie_id (map (\<lambda>x. if id_col x = i then f x else x) rs))"
proof -
  define g where "g = (\<lambda>x. if id_col x = i then f x else x)"
  have "distinct (map movie_id (map g rs))"
    using assms(1-3)
  proof (induction rs)
    case Nil
    show ?case by simp
  next
    case (Cons x xs)
    show ?case
    proof (cases "id_col x = i")
      case True
      from Cons.prems(1) have "id_col x \<notin> id_col ` set xs" by simp
      with True have others: "\<forall>y \<in> set xs. id_col y \<noteq> i" by blast
      then have same: "map g xs = xs"
        unfolding g_def by (rule map_id_same)
      from others Cons.prems(3) have "m \<notin> movie_id ` set xs" by auto
      moreover from True have "movie_id (g x) = m"
        by (simp add: g_def assms(4))
      ultimately show ?thesis
        using same Cons.prems(2) by simp
    next
      case False
      with Cons.prems(3) have xm: "movie_id x \<noteq> m" by simp
      from False have gx: "g x = x" by (simp add: g_def)
      from Cons.prems(2) have fresh: "movie_id x \<notin> movie_id ` set xs" by simp
      have "movie_id x \<noteq> movie_id (g y)" if "y \<in> set xs" for y
      proof (cases "id_col y = i")
        case True
        with xm show ?thesis by (simp add: g_def assms(4))
      next
        case False
        from that fresh have "movie_id x \<noteq> movie_id y" by (metis imageI)
        with False show ?thesis by (simp add: g_def)
      qed
      then have "movie_id x \<notin> set (map movie_id (map g xs))"
        by (auto simp del: map_map)
      moreover have "distinct (map movie_id (map g xs))"
        using Cons by simp
      ultimately show ?thesis
        by (simp add: gx del: map_map)
    qed
  qed
  then show ?thesis by (simp only: g_def)
qed

lemma update_movie_constraints:
  assumes "constraints_hold t"
    and "update_movie record_id mid name rel dir cst bud dur rat (Some t) = (res, Some t')"
  shows "constraints_hold t'"
proof (cases "\<exists>r \<in> set (rows t). id_col r = record_id")
  case False
  then have "map (\<lambda>x. if id_col x = record_id
                then x\<lparr>movie_id := mid, movie_name := name, release_date := rel,
                       director := dir, cast := cst, budget := bud,
                       duration := dur, rating := rat\<rparr>
                else x) (rows t) = rows t"
    by (intro map_id_same) simp
  with False assms(2) have "t' = t"
    by (auto simp: update_movie_def update_movies_def split: if_splits)
  with assms(1) show ?thesis by simp
next
  case True
  with assms(2)
  have "t' = t \<or>
    ((\<forall>x \<in> set (rows t). id_col x \<noteq> record_id \<longrightarrow> movie_id x \<noteq> mid) \<and>
     rows t' =
      map (\<lambda>x. if id_col x = record_id
                then x\<lparr>movie_id := mid, movie_name := name, release_date := rel,
                       director := dir, cast := cst, budget := bud,
                       duration := dur, rating := rat\<rparr>
                else x) (rows t))"
    by (auto simp: update_movie_def update_movies_def unique_failed_def split: if_splits)
  then show ?thesis
  proof
    assume "t' = t"
    with assms(1) show ?thesis by simp
  next
    assume upd: "(\<forall>x \<in> set (rows t). id_col x \<noteq> record_id \<longrightarrow> movie_id x \<noteq> mid) \<and>
     rows t' =
      map (\<lambda>x. if id_col x = record_id
                then x\<lparr>movie_id := mid, movie_name := name, release_date := rel,
                       director := dir, cast := cst, budget := bud,
                       duration := dur, rating := rat\<rparr>
                else x) (rows t)"
    then have ids: "map id_col (rows t') = map id_col (rows t)"
      by (simp add: comp_def if_distrib cong: if_cong)
    from assms(1) have d: "distinct (map id_col (rows t))" "distinct (map movie_id (rows t))"
      by (simp_all add: constraints_hold_def)
    from upd have no_other:
      "\<forall>x \<in> set (rows t). id_col x \<noteq> record_id \<longrightarrow> movie_id x \<noteq> mid"
      by blast
    have "distinct (map movie_id (map (\<lambda>x. if id_col x = record_id
                then x\<lparr>movie_id := mid, movie_name := name, release_date := rel,
                       director := dir, cast := cst, budget := bud,
                       duration := dur, rating := rat\<rparr>
                else x) (rows t)))"
      by (rule update_keeps_movie_ids_distinct[OF d no_other]) simp
    with upd have "distinct (map movie_id (rows t'))"
      by simp
    with ids d show ?thesis
      by (simp add: constraints_hold_def)
  qed
qed

text \<open>
  Stored ids are SQLite \<^verbatim>\<open>INTEGER\<close>s. No method takes a stored id out of the 64-bit
  range: \<^verbatim>\<open>update_movie\<close> and \<^verbatim>\<open>delete_movie\<close> leave the ids of the rows they
  keep, and \<^verbatim>\<open>add_movie\<close> hands out the next value of the counter.
\<close>

lemma add_movie_ids_in_range:
  assumes "\<forall>r \<in> set (rows t). int64 (id_col r)" and "int64 (next_rowid t)"
    and "add_movie mid name rel dir cst bud dur rat (Some t) = (res, Some t')"
  shows "\<forall>r \<in> set (rows t'). int64 (id_col r)"
proof -
  from assms(3)
  have "t' = t \<or>
     rows t' = rows t @
                [\<lparr>id_col = next_rowid t, movie_id = mid, movie_name = name,
                  release_date = rel, director = dir, cast = cst, budget = bud,
                  duration = dur, rating = rat\<rparr>]"
    by (auto simp: add_movie_def insert_into_movies_def unique_failed_def split: if_splits)
  with assms(1,2) show ?thesis
    by auto
qed

lemma update_movie_ids_in_range:
  assumes "\<forall>r \<in> set (rows t). int64 (id_col r)"
    and "update_movie record_id mid name rel dir cst bud dur rat (Some t) = (res, Some t')"
  shows "\<forall>r \<in> set (rows t'). int64 (id_col r)"
proof -
  from assms(2)
  have "t' = t \<or>
     rows t' =
      map (\<lambda>x. if id_col x = record_id
                then x\<lparr>movie_id := mid, movie_name := name, release_date := rel,
                       director := dir, cast := cst, budget := bud,
                       duration := dur, rating := rat\<rparr>
                else x) (rows t)"
    by (auto simp: update_movie_def update_movies_def unique_failed_def split: if_splits)
  with assms(1) show ?thesis
    by auto
qed

lemma delete_movie_ids_in_range:
  assumes "\<forall>r \<in> set (rows t). int64 (id_col r)"
    and "delete_movie record_id (Some t) = (res, Some t')"
  shows "\<forall>r \<in> set (rows t'). int64 (id_col r)"
proof -
  from assms(2) have "t' = t \<or> rows t' = filter (\<lambda>r. id_col r \<noteq> record_id) (rows t)"
    by (auto simp: delete_movie_def delete_from_movies_def split: if_splits)
  with assms(1) show ?thesis
    by auto
qed

text \<open>
  Claim C4. First: \<^verbatim>\<open>add_movie\<close> with the \<^verbatim>\<open>movie_id\<close> of a stored record fails
  and leaves the database, hence its number of records, as it was; the failure carries
  the already-exists message whenever the arguments pass the validation
  (\<^verbatim>\<open>movie_id\<close> and \<^verbatim>\<open>movie_name\<close> not empty). Second: \<^verbatim>\<open>update_movie\<close> of a
  stored record, with valid arguments and the \<^verbatim>\<open>movie_id\<close> of another stored
  record, fails with the same message and leaves the database as it was. Third: on a
  table that satisfies its constraints, \<^verbatim>\<open>update_movie\<close> of a stored record with
  valid arguments and that record's own \<^verbatim>\<open>movie_id\<close> succeeds and overwrites the
  eight fields of that record only. The id of the stored record that is updated is an
  SQLite \<^verbatim>\<open>INTEGER\<close>: it lies in the 64-bit range.
\<close>

theorem duplicate_movie_id_rejected:
  "(r \<in> set (rows t) \<and> movie_id r = mid \<longrightarrow>
      fst (fst (add_movie mid name rel dir cst bud dur rat (Some t))) = False \<and>
      snd (add_movie mid name rel dir cst bud dur rat (Some t)) = Some t) \<and>
   (r \<in> set (rows t) \<and> movie_id r = mid \<and> mid \<noteq> [] \<and> name \<noteq> [] \<longrightarrow>
      add_movie mid name rel dir cst bud dur rat (Some t) =
        ((False, exists_message mid), Some t)) \<and>
   (r \<in> set (rows t) \<and> id_col r = record_id \<and> int64 record_id \<and> r' \<in> set (rows t) \<and>
    id_col r' \<noteq> record_id \<and> movie_id r' = mid \<and> mid \<noteq> [] \<and> name \<noteq> [] \<longrightarrow>
      update_movie record_id mid name rel dir cst bud dur rat (Some t) =
        (Inr (False, exists_message mid), Some t)) \<and>
   (constraints_hold t \<and> r \<in> set (rows t) \<and> id_col r = record_id \<and> int64 record_id \<and>
    movie_id r = mid \<and> mid \<noteq> [] \<and> name \<noteq> [] \<longrightarrow>
      update_movie record_id mid name rel dir cst bud dur rat (Some t) =
        (Inr (True, ''Movie updated successfully!''),
         Some (t\<lparr>rows :=
           map (\<lambda>x. if id_col x = record_id
                     then x\<lparr>movie_id := mid, movie_name := name, release_date := rel,
                            director := dir, cast := cst, budget := bud,
                            duration := dur, rating := rat\<rparr>
                     else x) (rows t)\<rparr>)))"
proof (intro conjI impI)
  assume dup: "r \<in> set (rows t) \<and> movie_id r = mid"
  then show "fst (fst (add_movie mid name rel dir cst bud dur rat (Some t))) = False"
    by (auto simp: add_movie_def insert_into_movies_def unique_failed_def)
  from dup show "snd (add_movie mid name rel dir cst bud dur rat (Some t)) = Some t"
    by (auto simp: add_movie_def insert_into_movies_def unique_failed_def)
next
  assume "r \<in> set (rows t) \<and> movie_id r = mid \<and> mid \<noteq> [] \<and> name \<noteq> []"
  then show "add_movie mid name rel dir cst bud dur rat (Some t) =
      ((False, exists_message mid), Some t)"
    by (auto simp: add_movie_def insert_into_movies_def unique_failed_def)
next
  assume "r \<in> set (rows t) \<and> id_col r = record_id \<and> int64 record_id \<and> r' \<in> set (rows t) \<and>
    id_col r' \<noteq> record_id \<and> movie_id r' = mid \<and> mid \<noteq> [] \<and> name \<noteq> []"
  then show "update_movie record_id mid name rel dir cst bud dur rat (Some t) =
      (Inr (False, exists_message mid), Some t)"
    by (auto simp: update_movie_def update_movies_def unique_failed_def)
next
  assume own: "constraints_hold t \<and> r \<in> set (rows t) \<and> id_col r = record_id \<and>
    int64 record_id \<and> movie_id r = mid \<and> mid \<noteq> [] \<and> name \<noteq> []"
  then have no_other: "\<not> (\<exists>x \<in> set (rows t). id_col x \<noteq> record_id \<and> movie_id x = mid)"
    using distinct_movie_id_same[of "rows t" r] by (auto simp: constraints_hold_def)
  from own have "filter (\<lambda>x. id_col x = record_id) (rows t) \<noteq> []"
    using filter_id_some[of r "rows t"] by auto
  with own no_other
  show "update_movie record_id mid name rel dir cst bud dur rat (Some t) =
      (Inr (True, ''Movie updated successfully!''),
       Some (t\<lparr>rows :=
         map (\<lambda>x. if id_col x = record_id
                   then x\<lparr>movie_id := mid, movie_name := name, release_date := rel,
                          director := dir, cast := cst, budget := bud,
                          duration := dur, rating := rat\<rparr>
                   else x) (rows t)\<rparr>))"
    by (auto simp: update_movie_def update_movies_def)
qed

theorem duplicate_movie_id_rejected_witness:
  "add_movie ''M1'' ''Tenet'' [] [] [] [] [] [] (Some scenario) =
     ((False, exists_message ''M1''), Some scenario) \<and>
   update_movie 2 ''M1'' ''Tenet'' [] [] [] [] [] [] (Some scenario) =
     (Inr (False, exists_message ''M1''), Some scenario) \<and>
   update_movie 1 ''M1'' ''Tenet'' [] [] [] [] [] [] (Some scenario) =
     (Inr (True, ''Movie updated successfully!''),
      Some \<lparr>rows =
              [\<lparr>id_col = 1, movie_id = ''M1'', movie_name = ''Tenet'', release_date = [],
                director = [], cast = [], budget = [], duration = [], rating = []\<rparr>,
               interstellar],
            seq = 2\<rparr>)"
  using duplicate_movie_id_rejected
          [where r = inception and r' = interstellar and t = scenario and mid = "''M1''"
             and name = "''Tenet''" and record_id = 1 and rel = "[]" and dir = "[]"
             and cst = "[]" and bud = "[]" and dur = "[]" and rat = "[]"]
        duplicate_movie_id_rejected
          [where r = interstellar and r' = inception and t = scenario and mid = "''M1''"
             and name = "''Tenet''" and record_id = 2 and rel = "[]" and dir = "[]"
             and cst = "[]" and bud = "[]" and dur = "[]" and rat = "[]"]
  by (simp add: scenario_defs constraints_hold_def int64_def)

section \<open>Listing all records\<close>

text \<open>
  Claim C7: \<^verbatim>\<open>view_all_movies\<close> returns every stored record exactly once (the
  result has the rows of the table, each as often as the table has it), in
  descending order of id, strictly descending when the table satisfies its
  constraints; on the empty table it returns the empty list; and after any run of
  \<^verbatim>\<open>add_movie\<close> calls on the freshly initialized database, of which \<open>n\<close> reported
  success, it returns exactly \<open>n\<close> records in strictly descending order of id.
\<close>

theorem view_all_movies_descending:
  "mset (fst (view_all_movies (Some t))) = mset (rows t) \<and>
   sorted_wrt (\<lambda>a b. b \<le> a) (map id_col (fst (view_all_movies (Some t)))) \<and>
   (constraints_hold t \<longrightarrow>
      sorted_wrt (\<lambda>a b. b < a) (map id_col (fst (view_all_movies (Some t))))) \<and>
   fst (view_all_movies (Some \<lparr>rows = [], seq = s\<rparr>)) = [] \<and>
   (add_movies as (snd (initialize_database None)) = (n, db') \<longrightarrow>
      length (fst (view_all_movies db')) = n \<and>
      sorted_wrt (\<lambda>a b. b < a) (map id_col (fst (view_all_movies db'))))"
proof (intro conjI impI)
  show "mset (fst (view_all_movies (Some t))) = mset (rows t)"
    by (simp add: view_all_Some)
  show "sorted_wrt (\<lambda>a b. b \<le> a) (map id_col (fst (view_all_movies (Some t))))"
    by (simp only: view_all_Some fst_conv desc_sorted)
  show "sorted_wrt (\<lambda>a b. b < a) (map id_col (fst (view_all_movies (Some t))))"
    if "constraints_hold t"
    using that by (simp only: view_all_Some fst_conv desc_strict constraints_hold_def)
  show "fst (view_all_movies (Some \<lparr>rows = [], seq = s\<rparr>)) = []"
    by (simp add: view_all_Some)
next
  assume run: "add_movies as (snd (initialize_database None)) = (n, db')"
  then have "add_movies as (Some \<lparr>rows = [], seq = 0\<rparr>) = (n, db')"
    by (simp add: initialize_database_def create_table_if_not_exists_def)
  from add_movies_rows[OF this]
  obtain t' where t': "db' = Some t'" "length (rows t') = n" "distinct (map id_col (rows t'))"
    by auto
  show "length (fst (view_all_movies db')) = n"
    using t' by (simp add: view_all_Some)
  show "sorted_wrt (\<lambda>a b. b < a) (map id_col (fst (view_all_movies db')))"
    using t' by (simp only: view_all_Some fst_conv desc_strict)
qed

theorem view_all_movies_descending_witness:
  "add_movies [(''M1'', ''Inception'', [], [], [], [], [], ''4.5''),
               (''M1'', ''Tenet'', [], [], [], [], [], []),
               (''M2'', ''Interstellar'', [], [], [], [], [], ''4.8'')]
     (snd (initialize_database None)) = (2, Some scenario) \<and>
   fst (view_all_movies (Some scenario)) = [interstellar, inception] \<and>
   length (fst (view_all_movies (Some scenario))) = 2 \<and>
   sorted_wrt (\<lambda>a b. b < a) (map id_col (fst (view_all_movies (Some scenario))))"
proof -
  have run: "add_movies [(''M1'', ''Inception'', [], [], [], [], [], ''4.5''),
               (''M1'', ''Tenet'', [], [], [], [], [], []),
               (''M2'', ''Interstellar'', [], [], [], [], [], ''4.8'')]
     (snd (initialize_database None)) = (2, Some scenario)"
    by (simp add: scenario_defs initialize_database_def create_table_if_not_exists_def
        add_movie_def insert_into_movies_def next_rowid_def unique_failed_def)
  have listed: "fst (view_all_movies (Some scenario)) = [interstellar, inception]"
    by (simp add: view_all_Some scenario_defs)
  have ok: "constraints_hold scenario"
    by (simp add: constraints_hold_def scenario_defs)
  from view_all_movies_descending
         [where t = scenario and db' = "Some scenario" and n = 2 and s = 0
            and as = "[(''M1'', ''Inception'', [], [], [], [], [], ''4.5''),
               (''M1'', ''Tenet'', [], [], [], [], [], []),
               (''M2'', ''Interstellar'', [], [], [], [], [], ''4.8'')]"]
       run listed ok
  show ?thesis by simp
qed

section \<open>Searching\<close>

text \<open>
  What a pattern matches: a leading \<open>%\<close> lets the rest of the pattern match any
  suffix of the text, and a run of characters without wildcards matches a prefix of the
  same length that is equal up to the case of ASCII letters.
\<close>

lemma like_percent:
  "sql_like (CHR ''%'' # ps) s \<longleftrightarrow> (\<exists>pre suf. s = pre @ suf \<and> sql_like ps suf)"
proof (induction s)
  case Nil
  show ?case by simp
next
  case (Cons c cs)
  note IH = Cons.IH
  show ?case
  proof
    assume "sql_like (CHR ''%'' # ps) (c # cs)"
    then consider "sql_like ps (c # cs)" | "sql_like (CHR ''%'' # ps) cs" by auto
    then show "\<exists>pre suf. c # cs = pre @ suf \<and> sql_like ps suf"
    proof cases
      case 1
      then have "c # cs = [] @ (c # cs) \<and> sql_like ps (c # cs)" by simp
      then show ?thesis by blast
    next
      case 2
      with IH obtain pre suf where "cs = pre @ suf" "sql_like ps suf" by blast
      then have "c # cs = (c # pre) @ suf \<and> sql_like ps suf" by simp
      then show ?thesis by blast
    qed
  next
    assume "\<exists>pre suf. c # cs = pre @ suf \<and> sql_like ps suf"
    then obtain pre suf where split: "c # cs = pre @ suf" and m: "sql_like ps suf" by blast
    show "sql_like (CHR ''%'' # ps) (c # cs)"
    proof (cases pre)
      case Nil
      with split m have "sql_like ps (c # cs)" by simp
      then show ?thesis by simp
    next
      case (Cons a pre')
      with split have "cs = pre' @ suf" by simp
      with m IH have "sql_like (CHR ''%'' # ps) cs" by blast
      then show ?thesis by simp
    qed
  qed
qed

lemma like_literal:
  "wildcard_free v \<Longrightarrow>
   sql_like (v @ q) s \<longleftrightarrow>
     (\<exists>u w. s = u @ w \<and> map sqlite_tolower u = map sqlite_tolower v \<and> sql_like q w)"
proof (induction v arbitrary: s)
  case Nil
  show ?case by simp
next
  case (Cons a v)
  then have a: "a \<noteq> CHR ''%''" "a \<noteq> CHR ''_''" and v: "wildcard_free v"
    by (auto simp: wildcard_free_def)
  show ?case
  proof (cases s)
    case Nil
    with a show ?thesis by simp
  next
    case (Cons c cs)
    have "sql_like ((a # v) @ q) (c # cs) \<longleftrightarrow>
          sqlite_tolower a = sqlite_tolower c \<and> sql_like (v @ q) cs"
      using a by simp
    also have "\<dots> \<longleftrightarrow> sqlite_tolower a = sqlite_tolower c \<and>
        (\<exists>u w. cs = u @ w \<and> map sqlite_tolower u = map sqlite_tolower v \<and> sql_like q w)"
      using Cons.IH[OF v] by simp
    also have "\<dots> \<longleftrightarrow> (\<exists>u w. c # cs = u @ w \<and>
        map sqlite_tolower u = map sqlite_tolower (a # v) \<and> sql_like q w)"
    proof
      assume "sqlite_tolower a = sqlite_tolower c \<and>
        (\<exists>u w. cs = u @ w \<and> map sqlite_tolower u = map sqlite_tolower v \<and> sql_like q w)"
      then obtain u w where "sqlite_tolower a = sqlite_tolower c" "cs = u @ w"
        "map sqlite_tolower u = map sqlite_tolower v" "sql_like q w" by blast
      then have "c # cs = (c # u) @ w \<and>
        map sqlite_tolower (c # u) = map sqlite_tolower (a # v) \<and> sql_like q w" by simp
      then show "\<exists>u w. c # cs = u @ w \<and>
        map sqlite_tolower u = map sqlite_tolower (a # v) \<and> sql_like q w" by blast
    next
      assume "\<exists>u w. c # cs = u @ w \<and>
        map sqlite_tolower u = map sqlite_tolower (a # v) \<and> sql_like q w"
      then obtain u w where s: "c # cs = u @ w"
        and m: "map sqlite_tolower u = map sqlite_tolower (a # v)" and l: "sql_like q w"
        by blast
      from m obtain b u' where u: "u = b # u'" by (cases u) auto
      with s m l show "sqlite_tolower a = sqlite_tolower c \<and>
        (\<exists>u w. cs = u @ w \<and> map sqlite_tolower u = map sqlite_tolower v \<and> sql_like q w)"
        by auto
    qed
    finally show ?thesis using Cons by simp
  qed
qed

lemma like_any: "sql_like ''%'' s"
  by (simp add: like_percent)

lemma like_contains:
  assumes "wildcard_free v"
  shows "sql_like (''%'' @ v @ ''%'') s = contains_nocase s v"
proof -
  have "sql_like (''%'' @ v @ ''%'') s \<longleftrightarrow>
        (\<exists>pre suf. s = pre @ suf \<and> sql_like (v @ ''%'') suf)"
    using like_percent[of "v @ ''%''" s] by simp
  also have "\<dots> \<longleftrightarrow> (\<exists>pre u w. s = pre @ u @ w \<and>
        map sqlite_tolower u = map sqlite_tolower v)"
    using like_literal[OF assms, of "''%''"] like_any by auto
  also have "\<dots> \<longleftrightarrow> sublist (map sqlite_tolower v) (map sqlite_tolower s)"
  proof
    assume "\<exists>pre u w. s = pre @ u @ w \<and> map sqlite_tolower u = map sqlite_tolower v"
    then obtain pre u w where "s = pre @ u @ w" "map sqlite_tolower u = map sqlite_tolower v"
      by blast
    then have "map sqlite_tolower s =
        map sqlite_tolower pre @ map sqlite_tolower v @ map sqlite_tolower w"
      by simp
    then show "sublist (map sqlite_tolower v) (map sqlite_tolower s)"
      unfolding sublist_def by blast
  next
    assume "sublist (map sqlite_tolower v) (map sqlite_tolower s)"
    then obtain ps ss where "map sqlite_tolower s = ps @ map sqlite_tolower v @ ss"
      unfolding sublist_def by blast
    then have "\<exists>pre rest. s = pre @ rest \<and> ps = map sqlite_tolower pre \<and>
        map sqlite_tolower v @ ss = map sqlite_tolower rest"
      by (simp only: map_eq_append_conv)
    then obtain pre rest where 1: "s = pre @ rest"
      and 2: "map sqlite_tolower v @ ss = map sqlite_tolower rest"
      by blast
    from 2 have "\<exists>u w. rest = u @ w \<and> map sqlite_tolower v = map sqlite_tolower u \<and>
        ss = map sqlite_tolower w"
      by (simp only: append_eq_map_conv)
    then obtain u w where "rest = u @ w" "map sqlite_tolower u = map sqlite_tolower v"
      by auto
    with 1 show "\<exists>pre u w. s = pre @ u @ w \<and> map sqlite_tolower u = map sqlite_tolower v"
      by blast
  qed
  finally show ?thesis by (simp add: contains_nocase_def)
qed


lemma search_conditions_empty:
  "search_conditions kwargs = [] \<longleftrightarrow> (\<forall>kv \<in> set kwargs. snd kv = [])"
  by (auto simp: search_conditions_def filter_empty_conv)

lemma search_conditions_resolved:
  "filter (\<lambda>cond. column_of (fst cond) = None) (search_conditions kwargs) = [] \<longleftrightarrow>
   (\<forall>kv \<in> set kwargs. snd kv \<noteq> [] \<longrightarrow> column_of (fst kv) \<noteq> None)"
  by (fastforce simp: search_conditions_def filter_empty_conv)

lemma search_conditions_match:
  "(\<exists>cond \<in> set (search_conditions kwargs). like_condition cond r) \<longleftrightarrow>
   (\<exists>kv \<in> set kwargs. snd kv \<noteq> [] \<and> like_condition (fst kv, ''%'' @ snd kv @ ''%'') r)"
  by (fastforce simp: search_conditions_def)

lemma like_condition_contains:
  "wildcard_free (snd kv) \<Longrightarrow>
   like_condition (fst kv, ''%'' @ snd kv @ ''%'') r = field_contains kv r"
  using like_contains[of "snd kv"]
  by (simp add: like_condition_def field_contains_def split: option.split)

lemma names_column_modelled: "column_of key \<noteq> None \<Longrightarrow> resolve_key key \<noteq> OutsideModel"
  by (auto simp: resolve_key_def)

lemma names_nothing_unresolved: "resolve_key key = NamesNothing \<Longrightarrow> column_of key = None"
  by (auto simp: resolve_key_def split: option.splits)

lemma search_conditions_modelled:
  "(\<exists>cond \<in> set (search_conditions kwargs). resolve_key (fst cond) = OutsideModel) \<longleftrightarrow>
   (\<exists>kv \<in> set kwargs. snd kv \<noteq> [] \<and> resolve_key (fst kv) = OutsideModel)"
  by (fastforce simp: search_conditions_def)


lemma search_movies_like:
  assumes "\<exists>kv \<in> set kwargs. snd kv \<noteq> []"
    and "\<forall>kv \<in> set kwargs. snd kv \<noteq> [] \<longrightarrow> column_of (fst kv) \<noteq> None"
  shows "search_movies kwargs (Some t) =
           (Determined
              (filter (\<lambda>r. \<exists>kv \<in> set kwargs.
                         snd kv \<noteq> [] \<and> like_condition (fst kv, ''%'' @ snd kv @ ''%'') r)
                 (rows t)),
            Some t)"
proof -
  from assms(1) have active: "search_conditions kwargs \<noteq> []"
    by (auto simp: search_conditions_empty)
  from assms(2) have resolved:
    "filter (\<lambda>cond. column_of (fst cond) = None) (search_conditions kwargs) = []"
    unfolding search_conditions_resolved by blast
  from assms(2) have modelled:
    "\<not> (\<exists>cond \<in> set (search_conditions kwargs). resolve_key (fst cond) = OutsideModel)"
    unfolding search_conditions_modelled using names_column_modelled by blast
  show ?thesis
    using active resolved modelled
    by (simp add: search_movies_def select_where_like_def search_conditions_match)
qed

lemma search_movies_contains:
  assumes "\<exists>kv \<in> set kwargs. snd kv \<noteq> []"
    and "\<forall>kv \<in> set kwargs.
           snd kv \<noteq> [] \<longrightarrow> column_of (fst kv) \<noteq> None \<and> wildcard_free (snd kv)"
  shows "search_movies kwargs (Some t) =
           (Determined
              (filter (\<lambda>r. \<exists>kv \<in> set kwargs. snd kv \<noteq> [] \<and> field_contains kv r) (rows t)),
            Some t)"
proof -
  have same: "(\<exists>kv \<in> set kwargs.
                   snd kv \<noteq> [] \<and> like_condition (fst kv, ''%'' @ snd kv @ ''%'') r) \<longleftrightarrow>
       (\<exists>kv \<in> set kwargs. snd kv \<noteq> [] \<and> field_contains kv r)" for r
    using assms(2) like_condition_contains by blast
  from assms(2) have "\<forall>kv \<in> set kwargs. snd kv \<noteq> [] \<longrightarrow> column_of (fst kv) \<noteq> None"
    by blast
  from search_movies_like[OF assms(1) this]
  show ?thesis
    by (simp only: same)
qed

text \<open>
  The eight keywords of \<^verbatim>\<open>SearchMovieData\<close> name the eight text columns, so for
  values without wildcards the wrapper returns the rows in which some non-empty value
  occurs in its own field.
\<close>

lemma SearchMovieData_contains:
  assumes "mid \<noteq> [] \<or> name \<noteq> [] \<or> rel \<noteq> [] \<or> dir \<noteq> [] \<or> cst \<noteq> [] \<or> bud \<noteq> [] \<or>
           dur \<noteq> [] \<or> rat \<noteq> []"
    and "\<forall>v \<in> set [mid, name, rel, dir, cst, bud, dur, rat]. wildcard_free v"
  shows "SearchMovieData mid name rel dir cst bud dur rat (Some t) =
     (Determined
        (filter (\<lambda>r. (mid \<noteq> [] \<and> contains_nocase (movie_id r) mid) \<or>
                     (name \<noteq> [] \<and> contains_nocase (movie_name r) name) \<or>
                     (rel \<noteq> [] \<and> contains_nocase (release_date r) rel) \<or>
                     (dir \<noteq> [] \<and> contains_nocase (director r) dir) \<or>
                     (cst \<noteq> [] \<and> contains_nocase (cast r) cst) \<or>
                     (bud \<noteq> [] \<and> contains_nocase (budget r) bud) \<or>
                     (dur \<noteq> [] \<and> contains_nocase (duration r) dur) \<or>
                     (rat \<noteq> [] \<and> contains_nocase (rating r) rat)) (rows t)),
      Some t)"
proof -
  have cols: "column_of ''movie_id'' = Some ColMovieId"
    "column_of ''movie_name'' = Some ColMovieName"
    "column_of ''release_date'' = Some ColReleaseDate"
    "column_of ''director'' = Some ColDirector"
    "column_of ''cast'' = Some ColCast"
    "column_of ''budget'' = Some ColBudget"
    "column_of ''duration'' = Some ColDuration"
    "column_of ''rating'' = Some ColRating"
    by code_simp+
  let ?kw = "[(''movie_id'', mid), (''movie_name'', name), (''release_date'', rel),
        (''director'', dir), (''cast'', cst), (''budget'', bud), (''duration'', dur),
        (''rating'', rat)]"
  have active: "\<exists>kv \<in> set ?kw. snd kv \<noteq> []"
    using assms(1) by auto
  have known: "\<forall>kv \<in> set ?kw. snd kv \<noteq> [] \<longrightarrow>
       column_of (fst kv) \<noteq> None \<and> wildcard_free (snd kv)"
    using assms(2) by (simp add: cols)
  from search_movies_contains[OF active known]
  show ?thesis
    by (simp add: SearchMovieData_def field_contains_def cols)
qed




text \<open>
  Claim C9, as the code has it: when some keyword of the call has a non-empty value
  and a key that is a plain identifier, names no column and is no word with a meaning
  of its own, and every other keyword with a non-empty value has a key within the
  model (a column name or such an identifier), \<^verbatim>\<open>search_movies\<close> returns the empty
  list and the database as it was: the \<^verbatim>\<open>sqlite3.Error\<close> raised for the statement
  is caught.
\<close>

theorem unresolved_key_gives_empty_list:
  assumes "(key, val) \<in> set kwargs" and "val \<noteq> []" and "resolve_key key = NamesNothing"
    and "\<forall>kv \<in> set kwargs. snd kv \<noteq> [] \<longrightarrow> resolve_key (fst kv) \<noteq> OutsideModel"
  shows "search_movies kwargs db = (Determined [], db)"
proof -
  from assms(1,2) have "(key, ''%'' @ val @ ''%'') \<in> set (search_conditions kwargs)"
    by (force simp: search_conditions_def)
  with assms(3)
  have bad: "(key, ''%'' @ val @ ''%'') \<in>
      set (filter (\<lambda>cond. column_of (fst cond) = None) (search_conditions kwargs))"
    by (simp add: names_nothing_unresolved)
  then have "filter (\<lambda>cond. column_of (fst cond) = None) (search_conditions kwargs) \<noteq> []"
    by (metis empty_iff empty_set)
  then obtain cond rest
    where unresolved: "filter (\<lambda>cond. column_of (fst cond) = None) (search_conditions kwargs) =
      cond # rest"
    by (cases "filter (\<lambda>cond. column_of (fst cond) = None) (search_conditions kwargs)") auto
  from bad have active: "search_conditions kwargs \<noteq> []"
    by auto
  from assms(4) have modelled:
    "\<not> (\<exists>cond \<in> set (search_conditions kwargs). resolve_key (fst cond) = OutsideModel)"
    unfolding search_conditions_modelled by blast
  from active unresolved modelled show ?thesis
    by (simp add: search_movies_def select_where_like_def split: option.split)
qed

theorem unresolved_key_gives_empty_list_witness:
  "search_movies [(''title'', ''Inception''), (''rating'', ''4'')] (Some scenario) =
     (Determined [], Some scenario)"
proof -
  have unknown: "resolve_key ''title'' = NamesNothing"
    by code_simp
  have given: "(''title'', ''Inception'') \<in> set [(''title'', ''Inception''), (''rating'', ''4'')]"
    and nonempty: "''Inception'' \<noteq> []"
    by simp_all
  have modelled: "\<forall>kv \<in> set [(''title'', ''Inception''), (''rating'', ''4'')].
      snd kv \<noteq> [] \<longrightarrow> resolve_key (fst kv) \<noteq> OutsideModel"
    by code_simp
  from unresolved_key_gives_empty_list[OF given nonempty unknown modelled]
  show ?thesis .
qed

text \<open>
  \<^verbatim>\<open>rowid\<close> is not the name of a column of the table, yet the engine resolves it
  to the id; and a column name in capitals names the column.
\<close>

theorem rowid_key_finds_records:
  "''rowid'' \<notin> set [''id'', ''movie_id'', ''movie_name'', ''release_date'', ''director'',
                     ''cast'', ''budget'', ''duration'', ''rating''] \<and>
   search_movies [(''rowid'', ''2'')] (Some scenario) =
     (Determined [interstellar], Some scenario) \<and>
   search_movies [(''RATING'', ''4.8'')] (Some scenario) =
     (Determined [interstellar], Some scenario)"
  by code_simp

section \<open>Statistics\<close>




text \<open>
  Ratings whose value is not a double, or is one only after rounding, are outside
  what the model determines: for them nothing is stated.
\<close>

lemma undetermined_ratings:
  "cast_real ''2.675'' = Inexact \<and> cast_real ''4.8'' = Inexact \<and> cast_real ''1e999'' = Inexact"
  by code_simp




end
